theory Spec2Isabelle
  imports Main "HOL-Library.Sublist"
begin

section \<open>Python strings\<close>

text \<open>
  A Python \<open>str\<close> is modelled as a \<open>string\<close>. The non-ASCII characters of the source's
  own literals are written as the bytes the source file holds.

  \<open>str.upper\<close> and \<open>str.lower\<close> follow the Unicode tables, which are outside the
  repository. \<open>ascii_upper\<close> is \<open>str.upper\<close> on a text of ASCII characters; the program's
  own ASCII literals are the only texts it is applied to. The upper-casing of a text that
  comes from the input is a parameter of the run (\<open>str_upper\<close> below). \<open>lower\<close> maps the
  ASCII letters and leaves every other character: no character outside ASCII lower-cases
  to a letter of a file extension, so the extension test is the same.
\<close>

abbreviation (input) NL :: char where "NL \<equiv> CHR 0x0A"
abbreviation (input) BSL :: char where "BSL \<equiv> CHR 0x5C"
abbreviation (input) DQ :: char where "DQ \<equiv> CHR 0x22"
abbreviation (input) SQ :: char where "SQ \<equiv> CHR 0x27"

definition upper_chr :: "char \<Rightarrow> char" where
  "upper_chr c =
     (let n = (of_char c :: nat) in if 97 \<le> n \<and> n \<le> 122 then char_of (n - 32) else c)"

definition lower_chr :: "char \<Rightarrow> char" where
  "lower_chr c =
     (let n = (of_char c :: nat) in if 65 \<le> n \<and> n \<le> 90 then char_of (n + 32) else c)"

definition ascii_upper :: "string \<Rightarrow> string" where
  "ascii_upper s = map upper_chr s"

definition lower :: "string \<Rightarrow> string" where
  "lower s = map lower_chr s"

text \<open>\<open>s.count("\n")\<close>\<close>

definition count_newlines :: "string \<Rightarrow> nat" where
  "count_newlines s = count_list s NL"

section \<open>Comment stripping: \<open>BaseSecurityAnalyzer.preprocess_code\<close>\<close>

text \<open>
  \<open>re.sub(r"//.*?$", "", code, flags=re.MULTILINE)\<close>: scanning from the left, a match
  starts at the first \<open>//\<close>; \<open>.\<close> does not match a newline and \<open>$\<close> matches before a
  newline or at the end of the text, so the match runs to the end of the line, the
  newline excluded. The match is deleted and scanning resumes behind it.
\<close>

function sub_line_comments :: "string \<Rightarrow> string" where
  "sub_line_comments (a # b # cs) =
     (if a = CHR ''/'' \<and> b = CHR ''/''
      then sub_line_comments (dropWhile (\<lambda>c. c \<noteq> NL) cs)
      else a # sub_line_comments (b # cs))"
| "sub_line_comments [] = []"
| "sub_line_comments [c] = [c]"
  by pat_completeness auto
termination
  by (relation "measure length") (auto simp: le_imp_less_Suc length_dropWhile_le less_SucI)

text \<open>
  The first \<open>*/\<close> of a text: the text before it and the text behind it, or \<open>None\<close>
  when there is none.
\<close>

fun find_close :: "string \<Rightarrow> (string \<times> string) option" where
  "find_close (a # b # cs) =
     (if a = CHR ''*'' \<and> b = CHR ''/'' then Some ([], cs)
      else (case find_close (b # cs) of
              None \<Rightarrow> None
            | Some (body, rest) \<Rightarrow> Some (a # body, rest)))"
| "find_close cs = None"

lemma find_close_length: "find_close cs = Some (body, rest) \<Longrightarrow> length rest < length cs"
  by (induction cs arbitrary: body rule: find_close.induct)
     (auto split: if_splits option.splits)

lemma find_close_split:
  "find_close cs = Some (body, rest) \<Longrightarrow> cs = body @ ''*/'' @ rest"
  by (induction cs arbitrary: body rule: find_close.induct)
     (auto split: if_splits option.splits)

text \<open>
  \<open>re.sub(r"/\*.*?\*/", replace_multiline_comment, code, flags=re.DOTALL)\<close>: a match
  starts at a \<open>/*\<close> that has a \<open>*/\<close> behind it and ends with the first such \<open>*/\<close>; it is
  replaced by as many newlines as it contains. A \<open>/*\<close> that is never closed is no
  match and stays.
\<close>

definition replace_multiline_comment :: "string \<Rightarrow> string" where
  "replace_multiline_comment m = replicate (count_newlines m) NL"

function sub_block_comments :: "string \<Rightarrow> string" where
  "sub_block_comments (a # b # cs) =
     (if a = CHR ''/'' \<and> b = CHR ''*''
      then (case find_close cs of
              Some (body, rest) \<Rightarrow>
                replace_multiline_comment (''/*'' @ body @ ''*/'') @ sub_block_comments rest
            | None \<Rightarrow> a # sub_block_comments (b # cs))
      else a # sub_block_comments (b # cs))"
| "sub_block_comments [] = []"
| "sub_block_comments [c] = [c]"
  by pat_completeness auto
termination
  by (relation "measure length") (auto dest: find_close_length)

definition preprocess_code :: "string \<Rightarrow> string" where
  "preprocess_code code = sub_block_comments (sub_line_comments code)"

section \<open>Data model: \<open>models/data_models.py\<close>\<close>

datatype SeverityLevel = LOW | MEDIUM | HIGH | CRITICAL

datatype LanguageType = CSHARP | REACT_TYPESCRIPT | REACT_JAVASCRIPT | JAVA | UNKNOWN

text \<open>The members of the enumeration in declaration order, as iterating it yields them.\<close>

definition LanguageType_members :: "LanguageType list" where
  "LanguageType_members = [CSHARP, REACT_TYPESCRIPT, REACT_JAVASCRIPT, JAVA, UNKNOWN]"

fun LanguageType_value :: "LanguageType \<Rightarrow> string" where
  "LanguageType_value CSHARP = ''csharp''"
| "LanguageType_value REACT_TYPESCRIPT = ''react_typescript''"
| "LanguageType_value REACT_JAVASCRIPT = ''react_javascript''"
| "LanguageType_value JAVA = ''java''"
| "LanguageType_value UNKNOWN = ''unknown''"

section \<open>Language detection: \<open>services/language_detector.py\<close>\<close>

text \<open>Dictionaries keep insertion order, so both tables are association lists.\<close>

definition EXTENSION_MAP :: "(string \<times> LanguageType) list" where
  "EXTENSION_MAP =
     [(''.cs'', CSHARP),
      (''.tsx'', REACT_TYPESCRIPT),
      (''.ts'', REACT_TYPESCRIPT),
      (''.jsx'', REACT_JAVASCRIPT),
      (''.js'', REACT_JAVASCRIPT),
      (''.java'', JAVA)]"

definition LANGUAGE_PATTERNS :: "(LanguageType \<times> string list) list" where
  "LANGUAGE_PATTERNS =
     [(CSHARP,
        [BSL # ''busing'' @ BSL # ''s+System'' @ BSL # ''b'',
         BSL # ''bnamespace'' @ BSL # ''s+'' @ BSL # ''w+'',
         BSL # ''bpublic'' @ BSL # ''s+class'' @ BSL # ''s+'' @ BSL # ''w+'',
         BSL # ''bprivate'' @ BSL # ''s+'' @ BSL # ''w+'' @ BSL # ''s+'' @ BSL # ''w+''
           @ BSL # ''s*'' @ BSL # ''{'',
         BSL # ''[assembly:'' @ BSL # ''s*'' @ BSL # ''w+'' @ BSL # '']'']),
      (REACT_TYPESCRIPT,
        [BSL # ''bimport'' @ BSL # ''s+.*'' @ BSL # ''s+from'' @ BSL # ''s+['' @ SQ # BSL # DQ
           # '']react['' @ SQ # BSL # DQ # '']'',
         BSL # ''bexport'' @ BSL # ''s+.*React'' @ BSL # ''.FC'',
         BSL # ''binterface'' @ BSL # ''s+'' @ BSL # ''w+Props'',
         '':'' @ BSL # ''s*React'' @ BSL # ''.ReactNode'',
         ''<.*>'' @ BSL # ''s*'' @ BSL # ''(.*'' @ BSL # '')'' @ BSL # ''s*=>'' @ BSL # ''s*''
           @ BSL # ''{'']),
      (REACT_JAVASCRIPT,
        [BSL # ''bimport'' @ BSL # ''s+.*'' @ BSL # ''s+from'' @ BSL # ''s+['' @ SQ # BSL # DQ
           # '']react['' @ SQ # BSL # DQ # '']'',
         BSL # ''bexport'' @ BSL # ''s+default'' @ BSL # ''s+function'',
         BSL # ''bReact'' @ BSL # ''.createElement'',
         ''<'' @ BSL # ''w+[^>]*>.*<'' @ BSL # ''/'' @ BSL # ''w+>'']),
      (JAVA,
        [BSL # ''bpackage'' @ BSL # ''s+[a-z][a-z0-9_.]*'' @ BSL # ''s*;'',
         BSL # ''bimport'' @ BSL # ''s+(java|javax|org)'' @ BSL # ''.'',
         BSL # ''bpublic'' @ BSL # ''s+(class|interface|enum)'' @ BSL # ''s+'' @ BSL # ''w+'',
         ''@(Override|Autowired|Entity|Controller|Service|Repository)'',
         BSL # ''b(public|private|protected)'' @ BSL # ''s+(static'' @ BSL # ''s+)?(void|int|String|boolean)''
           @ BSL # ''s+'' @ BSL # ''w+'' @ BSL # ''s*'' @ BSL # ''(''])]"

text \<open>\<open>s.endswith(ext)\<close>\<close>

definition endswith :: "string \<Rightarrow> string \<Rightarrow> bool" where
  "endswith s ext = suffix ext s"

fun detect_by_extension_items :: "(string \<times> LanguageType) list \<Rightarrow> string \<Rightarrow> LanguageType" where
  "detect_by_extension_items [] file_path = UNKNOWN"
| "detect_by_extension_items ((ext, lang) # items) file_path =
     (if endswith (lower file_path) ext then lang
      else detect_by_extension_items items file_path)"

definition detect_by_extension :: "string \<Rightarrow> LanguageType" where
  "detect_by_extension file_path = detect_by_extension_items EXTENSION_MAP file_path"

text \<open>
  The regular-expression engine is outside the repository: \<open>re_search pattern code\<close> says
  whether \<open>re.search(pattern, code, re.MULTILINE)\<close> finds a match. It is a parameter of
  the detector.
\<close>

type_synonym regex_engine = "string \<Rightarrow> string \<Rightarrow> bool"

text \<open>\<open>{lang: 0 for lang in LanguageType if lang != LanguageType.UNKNOWN}\<close>\<close>

definition initial_scores :: "(LanguageType \<times> nat) list" where
  "initial_scores = map (\<lambda>lang. (lang, 0)) (filter (\<lambda>lang. lang \<noteq> UNKNOWN) LanguageType_members)"

text \<open>
  \<open>scores[lang] += 1\<close> on a key the dictionary holds; the entry keeps its place. Every
  key of \<open>LANGUAGE_PATTERNS\<close> is a key of \<open>scores\<close> (lemma \<open>pattern_keys_scored\<close>), so the
  \<open>KeyError\<close> of a missing key cannot occur.
\<close>

definition scores_incr :: "LanguageType \<Rightarrow> (LanguageType \<times> nat) list \<Rightarrow> (LanguageType \<times> nat) list" where
  "scores_incr lang scores = map (\<lambda>(k, v). if k = lang then (k, v + 1) else (k, v)) scores"

fun count_hits ::
  "regex_engine \<Rightarrow> string \<Rightarrow> LanguageType \<Rightarrow> string list \<Rightarrow> (LanguageType \<times> nat) list
     \<Rightarrow> (LanguageType \<times> nat) list" where
  "count_hits re_search code lang [] scores = scores"
| "count_hits re_search code lang (pattern # patterns) scores =
     count_hits re_search code lang patterns
       (if re_search pattern code then scores_incr lang scores else scores)"

fun score_languages ::
  "regex_engine \<Rightarrow> string \<Rightarrow> (LanguageType \<times> string list) list \<Rightarrow> (LanguageType \<times> nat) list
     \<Rightarrow> (LanguageType \<times> nat) list" where
  "score_languages re_search code [] scores = scores"
| "score_languages re_search code ((lang, patterns) # items) scores =
     score_languages re_search code items (count_hits re_search code lang patterns scores)"

text \<open>
  \<open>max(items, key=lambda x: x[1])\<close>: the running maximum is replaced only by an item
  whose key is strictly greater, so the first of several maximal items is returned.
\<close>

fun max_by_score :: "('k \<times> nat) \<Rightarrow> ('k \<times> nat) list \<Rightarrow> ('k \<times> nat)" where
  "max_by_score best [] = best"
| "max_by_score best (x # xs) = max_by_score (if snd best < snd x then x else best) xs"

definition detect_by_patterns :: "regex_engine \<Rightarrow> string \<Rightarrow> LanguageType" where
  "detect_by_patterns re_search code =
     (case score_languages re_search code LANGUAGE_PATTERNS initial_scores of
        [] \<Rightarrow> UNKNOWN
      | x # xs \<Rightarrow>
          (let max_lang = max_by_score x xs
           in if 0 < snd max_lang then fst max_lang else UNKNOWN))"

text \<open>\<open>if file_path:\<close> holds for a path that is neither \<open>None\<close> nor the empty string.\<close>

definition detect_language :: "regex_engine \<Rightarrow> string \<Rightarrow> string option \<Rightarrow> LanguageType" where
  "detect_language re_search code file_path =
     (case file_path of
        None \<Rightarrow> detect_by_patterns re_search code
      | Some p \<Rightarrow>
          if p \<noteq> [] then
            (let lang = detect_by_extension p
             in if lang \<noteq> UNKNOWN then lang else detect_by_patterns re_search code)
          else detect_by_patterns re_search code)"

text \<open>The number of a language's signature patterns that match the code.\<close>

definition patterns_of :: "LanguageType \<Rightarrow> string list" where
  "patterns_of lang = (case map_of LANGUAGE_PATTERNS lang of None \<Rightarrow> [] | Some ps \<Rightarrow> ps)"

definition signature_hits :: "regex_engine \<Rightarrow> string \<Rightarrow> LanguageType \<Rightarrow> nat" where
  "signature_hits re_search code lang = length (filter (\<lambda>p. re_search p code) (patterns_of lang))"

text \<open>The position of a member in the declaration of the enumeration.\<close>

fun declaration_index :: "LanguageType \<Rightarrow> nat" where
  "declaration_index CSHARP = 0"
| "declaration_index REACT_TYPESCRIPT = 1"
| "declaration_index REACT_JAVASCRIPT = 2"
| "declaration_index JAVA = 3"
| "declaration_index UNKNOWN = 4"

text \<open>The languages that are scored: the keys of \<open>scores\<close>, in declaration order.\<close>

definition scored_languages :: "LanguageType list" where
  "scored_languages = filter (\<lambda>lang. lang \<noteq> UNKNOWN) LanguageType_members"

text \<open>
  A regular-expression engine for concrete instances: exactly the listed patterns match,
  as they would on a code text with that match profile.
\<close>

definition matching_only :: "string list \<Rightarrow> regex_engine" where
  "matching_only ps pattern code = (pattern \<in> set ps)"

section \<open>Python values and exceptions\<close>

text \<open>
  The values \<open>json.loads\<close> produces. A float keeps the text of its numeral: no
  operation of the program computes with it. A \<open>dict\<close> is an association list read with
  \<open>map_of\<close>.
\<close>

datatype pyval =
    PNone
  | PBool bool
  | PInt int
  | PFloat string
  | PStr string
  | PList "pyval list"
  | PDict "(string \<times> pyval) list"

text \<open>
  Exceptions, as results, each with its message. The first six are classes below
  \<open>Exception\<close>, \<open>OtherException\<close> standing for every further such class. The last three
  derive from \<open>BaseException\<close> only: \<open>asyncio.CancelledError\<close>, which an \<open>await\<close> raises when
  the task is cancelled, \<open>KeyboardInterrupt\<close> and \<open>SystemExit\<close>.
\<close>

datatype py_exn =
    JSONDecodeError string
  | AttributeError string
  | ValueError string
  | ValidationError string
  | RecursionError string
  | OtherException string
  | CancelledError string
  | KeyboardInterrupt string
  | SystemExit string

fun str_exn :: "py_exn \<Rightarrow> string" where
  "str_exn (JSONDecodeError m) = m"
| "str_exn (AttributeError m) = m"
| "str_exn (ValueError m) = m"
| "str_exn (ValidationError m) = m"
| "str_exn (RecursionError m) = m"
| "str_exn (OtherException m) = m"
| "str_exn (CancelledError m) = m"
| "str_exn (KeyboardInterrupt m) = m"
| "str_exn (SystemExit m) = m"

text \<open>\<open>except Exception\<close> catches every class but those below \<open>BaseException\<close> only.\<close>

fun is_Exception :: "py_exn \<Rightarrow> bool" where
  "is_Exception (CancelledError m) = False"
| "is_Exception (KeyboardInterrupt m) = False"
| "is_Exception (SystemExit m) = False"
| "is_Exception e = True"

text \<open>\<open>except json.JSONDecodeError\<close> catches this class only.\<close>

fun is_JSONDecodeError :: "py_exn \<Rightarrow> bool" where
  "is_JSONDecodeError (JSONDecodeError m) = True"
| "is_JSONDecodeError e = False"

text \<open>\<open>except ValueError\<close> catches the class and its subclasses.\<close>

fun is_ValueError :: "py_exn \<Rightarrow> bool" where
  "is_ValueError (ValueError m) = True"
| "is_ValueError (JSONDecodeError m) = True"
| "is_ValueError (ValidationError m) = True"
| "is_ValueError e = False"

fun type_name :: "pyval \<Rightarrow> string" where
  "type_name PNone = ''NoneType''"
| "type_name (PBool b) = ''bool''"
| "type_name (PInt n) = ''int''"
| "type_name (PFloat f) = ''float''"
| "type_name (PStr s) = ''str''"
| "type_name (PList xs) = ''list''"
| "type_name (PDict d) = ''dict''"

text \<open>The error of reading an attribute the value's type does not have.\<close>

definition no_attribute :: "pyval \<Rightarrow> string \<Rightarrow> py_exn" where
  "no_attribute v name =
     AttributeError (SQ # type_name v @ SQ # '' object has no attribute '' @ SQ # name @ [SQ])"

text \<open>\<open>d.get(key, dflt)\<close>\<close>

definition dict_get :: "(string \<times> pyval) list \<Rightarrow> string \<Rightarrow> pyval \<Rightarrow> pyval" where
  "dict_get d key dflt = (case map_of d key of None \<Rightarrow> dflt | Some v \<Rightarrow> v)"

text \<open>\<open>str(n)\<close> of a number that is not negative.\<close>

function str_nat :: "nat \<Rightarrow> string" where
  "str_nat n =
     (if n < 10 then [char_of (48 + n)]
      else str_nat (n div 10) @ [char_of (48 + n mod 10)])"
  by pat_completeness auto
termination
  by (relation "measure (\<lambda>n. n)") auto

declare str_nat.simps [simp del]

text \<open>\<open>sep.join(parts)\<close>\<close>

fun join :: "string \<Rightarrow> string list \<Rightarrow> string" where
  "join sep [] = []"
| "join sep [x] = x"
| "join sep (x # y # ys) = x @ sep @ join sep (y # ys)"

section \<open>Response parsing: \<open>LLMService.parse_llm_response\<close>\<close>

text \<open>
  \<open>s.find(c)\<close> and \<open>s.rfind(c)\<close> for a single character: the index of its first and of
  its last occurrence, \<open>-1\<close> when there is none.
\<close>

definition str_find :: "char \<Rightarrow> string \<Rightarrow> int" where
  "str_find c s = (if c \<in> set s then int (length (takeWhile (\<lambda>x. x \<noteq> c) s)) else - 1)"

definition str_rfind :: "char \<Rightarrow> string \<Rightarrow> int" where
  "str_rfind c s =
     (if c \<in> set s
      then int (length s) - 1 - int (length (takeWhile (\<lambda>x. x \<noteq> c) (rev s)))
      else - 1)"

text \<open>
  \<open>s[i:j]\<close> for bounds that are not negative, the only ones the program slices with
  (\<open>json_start >= 0\<close> is tested, and \<open>json_end > json_start\<close>).
\<close>

definition slice :: "string \<Rightarrow> int \<Rightarrow> int \<Rightarrow> string" where
  "slice s i j = drop (nat i) (take (nat j) s)"

text \<open>
  \<open>json.loads\<close> is outside the repository: the decoder is a parameter, which returns the
  decoded value or raises.
\<close>

type_synonym json_decoder = "string \<Rightarrow> py_exn + pyval"

text \<open>
  The two statements both branches end with:
  \<open>issues = json.loads(text); return issues if isinstance(issues, list) else []\<close>.
\<close>

definition loads_list :: "json_decoder \<Rightarrow> string \<Rightarrow> py_exn + pyval list" where
  "loads_list loads text =
     (case loads text of
        Inl e \<Rightarrow> Inl e
      | Inr issues \<Rightarrow> Inr (case issues of PList xs \<Rightarrow> xs | _ \<Rightarrow> []))"

text \<open>
  The body of the \<open>try\<close>. The first component records the texts handed to
  \<open>json.loads\<close>, in the order of the calls; the second is what the body returns or
  raises.
\<close>

definition parse_llm_response_try :: "json_decoder \<Rightarrow> string \<Rightarrow> string list \<times> (py_exn + pyval list)" where
  "parse_llm_response_try loads response =
     (let json_start = str_find (CHR ''['') response;
          json_end = str_rfind (CHR '']'') response + 1
      in if 0 \<le> json_start \<and> json_start < json_end
         then (let json_str = slice response json_start json_end
               in ([json_str], loads_list loads json_str))
         else ([response], loads_list loads response))"

text \<open>The whole function: \<open>except json.JSONDecodeError: return []\<close> around the body.\<close>

definition parse_llm_response :: "json_decoder \<Rightarrow> string \<Rightarrow> string list \<times> (py_exn + pyval list)" where
  "parse_llm_response loads response =
     (case parse_llm_response_try loads response of
        (calls, Inr issues) \<Rightarrow> (calls, Inr issues)
      | (calls, Inl e) \<Rightarrow> (calls, if is_JSONDecodeError e then Inr [] else Inl e))"

text \<open>
  What one decoding attempt yields once the \<open>except\<close> clause has run: the decoded
  list, the empty list for any other decoded value and for a \<open>JSONDecodeError\<close>; an
  exception of another class propagates.
\<close>

definition decoded_or_empty :: "json_decoder \<Rightarrow> string \<Rightarrow> py_exn + pyval list" where
  "decoded_or_empty loads text =
     (case loads text of
        Inr (PList xs) \<Rightarrow> Inr xs
      | Inr _ \<Rightarrow> Inr []
      | Inl e \<Rightarrow> if is_JSONDecodeError e then Inr [] else Inl e)"


text \<open>
  A decoder for concrete instances. It decodes the documents listed as \<open>json.loads\<close>
  does and rejects every other text, as \<open>json.loads\<close> rejects the texts the instances
  below use that are not listed.
\<close>

definition sample_loads :: json_decoder where
  "sample_loads text =
     (if text = ''[]'' then Inr (PList [])
      else if text = ''{}'' then Inr (PDict [])
      else if text = ''[{'' @ DQ # ''severity'' @ DQ # '': '' @ DQ # ''high'' @ DQ # ''}]''
        then Inr (PList [PDict [(''severity'', PStr ''high'')]])
      else Inl (JSONDecodeError ''Expecting value''))"



section \<open>Issues and results: \<open>models/data_models.py\<close>\<close>

text \<open>
  \<open>SecurityIssue\<close> after validation. The field \<open>id\<close> is written \<open>id'\<close>. With
  \<open>use_enum_values\<close> the severity is stored as the member's value, a string that compares
  equal to the member; it is modelled as the member.
\<close>

record SecurityIssue =
  id' :: string
  title :: string
  description :: string
  severity :: SeverityLevel
  line_number :: "int option"
  column_number :: "int option"
  file_path :: "string option"
  code_snippet :: "string option"
  remediation :: "string option"
  references :: "string list option"

text \<open>
  The parts of a run that the program does not decide: the hexadecimal text of the UUID
  drawn while record number \<open>idx\<close> is converted (at most one per record), the
  conversion the validation library applies to a value given for an \<open>int\<close> field that is
  neither \<open>None\<close> nor an \<open>int\<close> (in its default mode it accepts some numeric strings,
  floats and booleans), and \<open>str.upper\<close>, the upper-casing of the Unicode tables.
\<close>

record runtime =
  uuid4_hex :: "nat \<Rightarrow> string"
  lax_int :: "pyval \<Rightarrow> int option"
  str_upper :: "string \<Rightarrow> string"

text \<open>
  Field validation, from the declared types of \<open>SecurityIssue\<close> (pydantic 2): a \<open>str\<close>
  field takes a \<open>str\<close>; an \<open>Optional\<close> field takes \<open>None\<close> as well; a \<open>List[str]\<close> takes a
  list whose items are all \<open>str\<close>. \<open>None\<close> of the outer option is a validation error.
\<close>

fun validate_str :: "pyval \<Rightarrow> string option" where
  "validate_str (PStr s) = Some s"
| "validate_str v = None"

fun validate_optional_str :: "pyval \<Rightarrow> string option option" where
  "validate_optional_str PNone = Some None"
| "validate_optional_str (PStr s) = Some (Some s)"
| "validate_optional_str v = None"

fun validate_optional_int :: "runtime \<Rightarrow> pyval \<Rightarrow> int option option" where
  "validate_optional_int rt PNone = Some None"
| "validate_optional_int rt (PInt n) = Some (Some n)"
| "validate_optional_int rt v = map_option Some (lax_int rt v)"

fun validate_str_items :: "pyval list \<Rightarrow> string list option" where
  "validate_str_items [] = Some []"
| "validate_str_items (v # vs) =
     (case (validate_str v, validate_str_items vs) of
        (Some s, Some ss) \<Rightarrow> Some (s # ss)
      | _ \<Rightarrow> None)"

fun validate_optional_str_list :: "pyval \<Rightarrow> string list option option" where
  "validate_optional_str_list PNone = Some None"
| "validate_optional_str_list (PList vs) = map_option Some (validate_str_items vs)"
| "validate_optional_str_list v = None"

text \<open>
  The keyword arguments of the call \<open>SecurityIssue(...)\<close>, in the order of the call; the
  severity is already a member of the enumeration.
\<close>

record issue_kwargs =
  kw_id :: pyval
  kw_title :: pyval
  kw_description :: pyval
  kw_severity :: SeverityLevel
  kw_line_number :: pyval
  kw_column_number :: pyval
  kw_file_path :: pyval
  kw_code_snippet :: pyval
  kw_remediation :: pyval
  kw_references :: pyval

text \<open>
  The constructor: every field is validated, and one that fails raises a
  \<open>ValidationError\<close>. The text of the error is not modelled.
\<close>

definition SecurityIssue_init :: "runtime \<Rightarrow> issue_kwargs \<Rightarrow> py_exn + SecurityIssue" where
  "SecurityIssue_init rt kw =
     (case (validate_str (kw_id kw), validate_str (kw_title kw),
            validate_str (kw_description kw),
            validate_optional_int rt (kw_line_number kw),
            validate_optional_int rt (kw_column_number kw),
            validate_optional_str (kw_file_path kw),
            validate_optional_str (kw_code_snippet kw),
            validate_optional_str (kw_remediation kw),
            validate_optional_str_list (kw_references kw)) of
        (Some i, Some t, Some d, Some ln, Some cn, Some fp, Some cs, Some rm, Some rf) \<Rightarrow>
          Inr \<lparr>id' = i, title = t, description = d, severity = kw_severity kw,
               line_number = ln, column_number = cn, file_path = fp, code_snippet = cs,
               remediation = rm, references = rf\<rparr>
      | _ \<Rightarrow> Inl (ValidationError ''validation error for SecurityIssue''))"

fun SeverityLevel_value :: "SeverityLevel \<Rightarrow> string" where
  "SeverityLevel_value LOW = ''LOW''"
| "SeverityLevel_value MEDIUM = ''MEDIUM''"
| "SeverityLevel_value HIGH = ''HIGH''"
| "SeverityLevel_value CRITICAL = ''CRITICAL''"

text \<open>\<open>SeverityLevel(s)\<close>: the member whose value is \<open>s\<close>, or a \<open>ValueError\<close>.\<close>

definition SeverityLevel_call :: "string \<Rightarrow> py_exn + SeverityLevel" where
  "SeverityLevel_call s =
     (if s = ''LOW'' then Inr LOW
      else if s = ''MEDIUM'' then Inr MEDIUM
      else if s = ''HIGH'' then Inr HIGH
      else if s = ''CRITICAL'' then Inr CRITICAL
      else Inl (ValueError (SQ # s @ SQ # '' is not a valid SeverityLevel'')))"

section \<open>Record conversion: \<open>BaseSecurityAnalyzer._create_security_issues\<close>\<close>

text \<open>
  \<open>file_path or data.get("file_path")\<close>: the caller's path when it is neither \<open>None\<close> nor
  empty, else what the record holds under \<open>file_path\<close> (\<open>None\<close> when it holds nothing).
\<close>

definition path_or_record :: "string option \<Rightarrow> (string \<times> pyval) list \<Rightarrow> pyval" where
  "path_or_record path d =
     (case path of
        None \<Rightarrow> dict_get d ''file_path'' PNone
      | Some p \<Rightarrow> if p \<noteq> [] then PStr p else dict_get d ''file_path'' PNone)"

text \<open>
  The keyword arguments built from a record \<open>d\<close> once its severity is coerced: every
  \<open>data.get\<close> of the call, with its default.
\<close>

definition issue_kwargs_of ::
  "runtime \<Rightarrow> string option \<Rightarrow> nat \<Rightarrow> (string \<times> pyval) list \<Rightarrow> SeverityLevel \<Rightarrow> issue_kwargs" where
  "issue_kwargs_of rt path idx d sev =
     \<lparr>kw_id = dict_get d ''id'' (PStr (''SEC-'' @ take 8 (uuid4_hex rt idx))),
      kw_title = dict_get d ''title'' (PStr ''Security Issue''),
      kw_description = dict_get d ''description'' (PStr ''No description provided''),
      kw_severity = sev,
      kw_line_number = dict_get d ''line_number'' PNone,
      kw_column_number = dict_get d ''column_number'' PNone,
      kw_file_path = path_or_record path d,
      kw_code_snippet = dict_get d ''code_snippet'' PNone,
      kw_remediation = dict_get d ''remediation'' PNone,
      kw_references = dict_get d ''references'' (PList [])\<rparr>"

text \<open>
  \<open>try: severity = SeverityLevel(severity_str)\<close> with
  \<open>except ValueError: severity = SeverityLevel.MEDIUM\<close>.
\<close>

definition coerce_severity :: "string \<Rightarrow> py_exn + SeverityLevel" where
  "coerce_severity severity_str =
     (case SeverityLevel_call severity_str of
        Inr member \<Rightarrow> Inr member
      | Inl e \<Rightarrow> if is_ValueError e then Inr MEDIUM else Inl e)"

text \<open>
  The body of the outer \<open>try\<close> for one record: \<open>data.get\<close> needs a \<open>dict\<close> and
  \<open>.upper()\<close> a \<open>str\<close>, and the constructor validates.
\<close>

definition create_security_issue ::
  "runtime \<Rightarrow> string option \<Rightarrow> nat \<Rightarrow> pyval \<Rightarrow> py_exn + SecurityIssue" where
  "create_security_issue rt path idx data =
     (case data of
        PDict d \<Rightarrow>
          (case dict_get d ''severity'' (PStr ''MEDIUM'') of
             PStr s \<Rightarrow>
               (let severity_str = str_upper rt s
                in case coerce_severity severity_str of
                     Inl e \<Rightarrow> Inl e
                   | Inr sev \<Rightarrow> SecurityIssue_init rt (issue_kwargs_of rt path idx d sev))
           | v \<Rightarrow> Inl (no_attribute v ''upper''))
      | v \<Rightarrow> Inl (no_attribute v ''get''))"

text \<open>
  The loop over \<open>enumerate(issues_data)\<close>: \<open>except Exception: continue\<close> skips a record
  whose conversion raises. The conversion raises no exception outside \<open>Exception\<close>
  (lemma \<open>create_security_issue_raises_Exception\<close>), so none passes the handler.
\<close>

fun create_security_issues_from ::
  "runtime \<Rightarrow> string option \<Rightarrow> nat \<Rightarrow> pyval list \<Rightarrow> SecurityIssue list" where
  "create_security_issues_from rt path idx [] = []"
| "create_security_issues_from rt path idx (data # rest) =
     (case create_security_issue rt path idx data of
        Inr issue \<Rightarrow> issue # create_security_issues_from rt path (Suc idx) rest
      | Inl e \<Rightarrow> create_security_issues_from rt path (Suc idx) rest)"

text \<open>
  A run for concrete instances: one fixed UUID, no conversion to \<open>int\<close>, and the
  upper-casing of ASCII texts, the only texts the instances upper-case.
\<close>

definition sample_runtime :: runtime where
  "sample_runtime =
     \<lparr>uuid4_hex = (\<lambda>idx. ''0123456789abcdef0123456789abcdef''), lax_int = (\<lambda>v. None),
      str_upper = ascii_upper\<rparr>"

definition create_security_issues :: "runtime \<Rightarrow> pyval list \<Rightarrow> string option \<Rightarrow> SecurityIssue list" where
  "create_security_issues rt issues_data path = create_security_issues_from rt path 0 issues_data"

section \<open>The analyzer: \<open>BaseSecurityAnalyzer\<close>\<close>

text \<open>
  What a concrete analyzer class and the injected service supply. The abstract methods
  and \<open>preprocess_code\<close>, which a subclass may override, are fields; each one that is a
  stage of \<open>analyze\<close> returns or raises. \<open>analyze_code\<close> is the gateway call and
  \<open>parse_llm_response_of\<close> the service's \<open>parse_llm_response\<close>.
\<close>

record analyzer =
  get_language_type :: LanguageType
  class_name :: string
  get_security_rules_prompt :: "py_exn + string"
  preprocess_code_of :: "string \<Rightarrow> py_exn + string"

record llm_service =
  analyze_code :: "string \<Rightarrow> string \<Rightarrow> py_exn + string"
  parse_llm_response_of :: "string \<Rightarrow> py_exn + pyval list"

text \<open>\<open>sum(1 for i in issues if i.severity == level)\<close>\<close>

definition count_severity :: "SeverityLevel \<Rightarrow> SecurityIssue list \<Rightarrow> nat" where
  "count_severity level issues = length (filter (\<lambda>i. severity i = level) issues)"

text \<open>The two marks of the completion texts, as the bytes of the source file.\<close>

definition target_mark :: string where
  "target_mark = [CHR 0xC3, CHR 0xB0, CHR 0xC5, CHR 0xB8, CHR 0xC5, CHR 0xBD, CHR 0xC2, CHR 0xAF]"

definition check_mark :: string where
  "check_mark = [CHR 0xC3, CHR 0xA2, CHR 0xC5, CHR 0x93, CHR 0xE2, CHR 0x80, CHR 0xA6]"

definition completion_message :: "analyzer \<Rightarrow> string" where
  "completion_message an =
     [NL, NL] @ replicate 70 (CHR ''='') @ [NL]
     @ target_mark @ '' ANALYSIS COMPLETED SUCCESSFULLY '' @ target_mark @ [NL]
     @ replicate 70 (CHR ''='') @ [NL]
     @ ''Language: '' @ ascii_upper (LanguageType_value (get_language_type an)) @ [NL]
     @ ''Analyzer: '' @ class_name an @ [NL]
     @ ''Status: '' @ check_mark @ '' FINISHED'' @ [NL]
     @ replicate 70 (CHR ''='')"

text \<open>\<open>_generate_summary\<close>\<close>

definition generate_summary :: "analyzer \<Rightarrow> SecurityIssue list \<Rightarrow> string" where
  "generate_summary an issues =
     (let summary =
        (if issues = [] then ''No security issues detected.''
         else
           (let critical = count_severity CRITICAL issues;
                high = count_severity HIGH issues;
                medium = count_severity MEDIUM issues;
                low = count_severity LOW issues;
                parts = [];
                parts = (if critical \<noteq> 0 then parts @ [str_nat critical @ '' critical''] else parts);
                parts = (if high \<noteq> 0 then parts @ [str_nat high @ '' high''] else parts);
                parts = (if medium \<noteq> 0 then parts @ [str_nat medium @ '' medium''] else parts);
                parts = (if low \<noteq> 0 then parts @ [str_nat low @ '' low''] else parts);
                severity_text = (if parts \<noteq> [] then join '', '' parts else ''0'')
            in ''Found '' @ str_nat (length issues) @ '' security issue(s): '' @ severity_text
               @ '' severity.''))
      in summary @ completion_message an)"

text \<open>
  The counts the specification asks for: one part for each severity whose count is not
  zero, highest severity first.
\<close>

fun severity_word :: "SeverityLevel \<Rightarrow> string" where
  "severity_word CRITICAL = ''critical''"
| "severity_word HIGH = ''high''"
| "severity_word MEDIUM = ''medium''"
| "severity_word LOW = ''low''"

definition nonzero_counts :: "SecurityIssue list \<Rightarrow> string list" where
  "nonzero_counts issues =
     map (\<lambda>level. str_nat (count_severity level issues) @ '' '' @ severity_word level)
       (filter (\<lambda>level. count_severity level issues \<noteq> 0) [CRITICAL, HIGH, MEDIUM, LOW])"

text \<open>An issue of a given severity, for concrete instances.\<close>

definition sample_issue :: "SeverityLevel \<Rightarrow> SecurityIssue" where
  "sample_issue level =
     \<lparr>id' = ''SEC-01234567'', title = ''Security Issue'',
      description = ''No description provided'', severity = level, line_number = None,
      column_number = None, file_path = None, code_snippet = None, remediation = None,
      references = Some []\<rparr>"

text \<open>\<open>AnalysisResult\<close>; the metadata dictionary keeps the order of its keys.\<close>

record AnalysisResult =
  language :: LanguageType
  issues :: "SecurityIssue list"
  summary :: string
  analysis_metadata :: "(string \<times> pyval) list"

text \<open>The body of the \<open>try\<close> of \<open>analyze\<close>: the first stage that raises ends it.\<close>

definition analyze_try ::
  "runtime \<Rightarrow> analyzer \<Rightarrow> llm_service \<Rightarrow> string \<Rightarrow> string option \<Rightarrow> py_exn + AnalysisResult" where
  "analyze_try rt an llm code path =
     (case preprocess_code_of an code of
        Inl e \<Rightarrow> Inl e
      | Inr preprocessed_code \<Rightarrow>
     (case get_security_rules_prompt an of
        Inl e \<Rightarrow> Inl e
      | Inr prompt \<Rightarrow>
     (case analyze_code llm preprocessed_code prompt of
        Inl e \<Rightarrow> Inl e
      | Inr llm_response \<Rightarrow>
     (case parse_llm_response_of llm llm_response of
        Inl e \<Rightarrow> Inl e
      | Inr issues_data \<Rightarrow>
          (let found = create_security_issues rt issues_data path;
               text_summary = generate_summary an found;
               metadata =
                 [(''total_issues'', PInt (int (length found))),
                  (''critical_count'', PInt (int (count_severity CRITICAL found))),
                  (''high_count'', PInt (int (count_severity HIGH found))),
                  (''medium_count'', PInt (int (count_severity MEDIUM found))),
                  (''low_count'', PInt (int (count_severity LOW found))),
                  (''analyzer'', PStr (class_name an)),
                  (''status'', PStr ''COMPLETED''),
                  (''completion_message'', PStr (check_mark @ '' Analysis finished successfully''))]
           in Inr \<lparr>language = get_language_type an, issues = found,
                    summary = text_summary, analysis_metadata = metadata\<rparr>)))))"

text \<open>The result the \<open>except Exception as e\<close> clause returns.\<close>

definition failure_result :: "analyzer \<Rightarrow> py_exn \<Rightarrow> AnalysisResult" where
  "failure_result an e =
     \<lparr>language = get_language_type an, issues = [],
      summary = ''Analysis failed: '' @ str_exn e,
      analysis_metadata = [(''error'', PStr (str_exn e)), (''analyzer'', PStr (class_name an))]\<rparr>"

text \<open>
  \<open>analyze\<close>: \<open>except Exception as e\<close> around the body. An exception outside
  \<open>Exception\<close> is not caught and leaves the function.
\<close>

definition analyze ::
  "runtime \<Rightarrow> analyzer \<Rightarrow> llm_service \<Rightarrow> string \<Rightarrow> string option \<Rightarrow> py_exn + AnalysisResult" where
  "analyze rt an llm code path =
     (case analyze_try rt an llm code path of
        Inr result \<Rightarrow> Inr result
      | Inl e \<Rightarrow> if is_Exception e then Inr (failure_result an e) else Inl e)"

text \<open>
  The exception of the first of the four stages that raises (preprocess, prompt, gateway,
  parse), \<open>None\<close> when all four return.
\<close>

definition raised_by_stage :: "analyzer \<Rightarrow> llm_service \<Rightarrow> string \<Rightarrow> py_exn option" where
  "raised_by_stage an llm code =
     (case preprocess_code_of an code of
        Inl e \<Rightarrow> Some e
      | Inr preprocessed_code \<Rightarrow>
     (case get_security_rules_prompt an of
        Inl e \<Rightarrow> Some e
      | Inr prompt \<Rightarrow>
     (case analyze_code llm preprocessed_code prompt of
        Inl e \<Rightarrow> Some e
      | Inr llm_response \<Rightarrow>
     (case parse_llm_response_of llm llm_response of
        Inl e \<Rightarrow> Some e
      | Inr issues_data \<Rightarrow> None))))"

text \<open>
  The gateway, \<open>LLMService.analyze_code\<close>: the HTTP round trip is a parameter \<open>post\<close>
  from the composed prompt to the content of the first choice. \<open>except Exception as e\<close>
  raises what it catches again as an \<open>Exception\<close> with the prefixed message; an exception
  outside \<open>Exception\<close> passes through.
\<close>

definition LLMService_analyze_code ::
  "(string \<Rightarrow> py_exn + string) \<Rightarrow> string \<Rightarrow> string \<Rightarrow> py_exn + string" where
  "LLMService_analyze_code post code prompt =
     (let full_prompt = prompt @ [NL, NL] @ ''Code to analyze:'' @ [NL] @ ''```'' @ [NL] @ code
            @ [NL] @ ''```'' @ [NL, NL]
            @ ''Provide your analysis as a JSON array of security issues.''
      in case post full_prompt of
           Inr content \<Rightarrow> Inr content
         | Inl e \<Rightarrow>
             if is_Exception e then Inl (OtherException (''LLM analysis failed: '' @ str_exn e))
             else Inl e)"

text \<open>The service over a decoder and a transport, and the C# analyzer over its prompt.\<close>

definition LLMService :: "json_decoder \<Rightarrow> (string \<Rightarrow> py_exn + string) \<Rightarrow> llm_service" where
  "LLMService loads post =
     \<lparr>analyze_code = LLMService_analyze_code post,
      parse_llm_response_of = (\<lambda>response. snd (parse_llm_response loads response))\<rparr>"

definition CSharpSecurityAnalyzer :: "string \<Rightarrow> analyzer" where
  "CSharpSecurityAnalyzer prompt =
     \<lparr>get_language_type = CSHARP, class_name = ''CSharpSecurityAnalyzer'',
      get_security_rules_prompt = Inr prompt,
      preprocess_code_of = (\<lambda>code. Inr (preprocess_code code))\<rparr>"

section \<open>Properties\<close>

subsection \<open>Comment stripping\<close>

lemma count_newlines_dropWhile:
  "count_newlines (dropWhile (\<lambda>c. c \<noteq> NL) cs) = count_newlines cs"
  by (induction cs) (auto simp: count_newlines_def)

lemma sub_line_comments_newlines:
  "count_newlines (sub_line_comments cs) = count_newlines cs"
proof (induction cs rule: sub_line_comments.induct)
  case (1 a b cs)
  show ?case
  proof (cases "a = CHR ''/'' \<and> b = CHR ''/''")
    case True
    with 1 show ?thesis
      using count_newlines_dropWhile [of cs] by (simp add: count_newlines_def)
  next
    case False
    with 1 show ?thesis by (auto simp: count_newlines_def)
  qed
qed (simp_all)

lemma count_list_replicate_same: "count_list (replicate n x) x = n"
  by (induction n) simp_all

lemma count_newlines_replace [simp]:
  "count_newlines (replace_multiline_comment m) = count_newlines m"
  by (simp add: replace_multiline_comment_def count_newlines_def count_list_replicate_same)

lemma count_newlines_append [simp]:
  "count_newlines (xs @ ys) = count_newlines xs + count_newlines ys"
  by (simp add: count_newlines_def)

lemma sub_block_comments_newlines:
  "count_newlines (sub_block_comments cs) = count_newlines cs"
proof (induction cs rule: sub_block_comments.induct)
  case (1 a b cs)
  show ?case
  proof (cases "a = CHR ''/'' \<and> b = CHR ''*''")
    case True
    note open_found = this
    show ?thesis
    proof (cases "find_close cs")
      case None
      with 1 open_found show ?thesis by (simp add: count_newlines_def)
    next
      case (Some p)
      obtain body rest where p: "p = (body, rest)" by (cases p)
      have cs: "cs = body @ ''*/'' @ rest"
        using Some p find_close_split [of cs body rest] by simp
      have ih: "count_newlines (sub_block_comments rest) = count_newlines rest"
        using 1(2) [OF open_found Some, of body rest] p by simp
      have "count_newlines (sub_block_comments (a # b # cs)) =
              count_newlines (''/*'' @ body @ ''*/'') + count_newlines rest"
        using open_found Some p ih by simp
      also have "\<dots> = count_newlines (a # b # body @ ''*/'' @ rest)"
        using open_found by (simp add: count_newlines_def)
      also have "\<dots> = count_newlines (a # b # cs)"
        using cs by simp
      finally show ?thesis .
    qed
  next
    case False
    with 1 show ?thesis by (auto simp: count_newlines_def)
  qed
qed (simp_all)

text \<open>
  C8. For every code text, \<open>preprocess_code\<close> returns a text with exactly as many
  newline characters as its input.
\<close>

theorem preprocess_code_preserves_newlines:
  "count_newlines (preprocess_code code) = count_newlines code"
  by (simp add: preprocess_code_def sub_block_comments_newlines sub_line_comments_newlines)

subsection \<open>Language detection\<close>

lemma pattern_keys_scored: "fst ` set LANGUAGE_PATTERNS \<subseteq> fst ` set initial_scores"
  by (simp add: LANGUAGE_PATTERNS_def initial_scores_def LanguageType_members_def)

lemma detect_by_extension_items_first:
  "(ext, lang) \<in> set items \<Longrightarrow> endswith (lower path) ext \<Longrightarrow>
   (\<forall>(e, l) \<in> set items. endswith (lower path) e \<longrightarrow> l = lang) \<Longrightarrow>
   detect_by_extension_items items path = lang"
proof (induction items)
  case Nil
  then show ?case by simp
next
  case (Cons item items)
  obtain e l where item: "item = (e, l)" by (cases item)
  show ?case
  proof (cases "endswith (lower path) e")
    case True
    with Cons.prems(3) item show ?thesis by simp
  next
    case False
    with Cons.prems item have "(ext, lang) \<in> set items" by auto
    with Cons.IH Cons.prems False item show ?thesis by simp
  qed
qed

lemma detect_by_extension_items_none:
  "(\<forall>(e, l) \<in> set items. \<not> endswith (lower path) e) \<Longrightarrow>
   detect_by_extension_items items path = UNKNOWN"
  by (induction items) auto

lemma extension_suffix_eq:
  "suffix e1 e2 \<Longrightarrow> e1 \<in> fst ` set EXTENSION_MAP \<Longrightarrow> e2 \<in> fst ` set EXTENSION_MAP \<Longrightarrow> e1 = e2"
  unfolding EXTENSION_MAP_def
  apply (simp only: list.set image_insert image_empty fst_conv insert_iff empty_iff)
  apply (elim disjE)
  apply (simp_all add: suffix_to_prefix)
  done

lemma extension_keys_distinct: "distinct (map fst EXTENSION_MAP)"
  by (simp add: EXTENSION_MAP_def)

lemma extension_languages_agree:
  assumes "(e1, l1) \<in> set EXTENSION_MAP" and "(e2, l2) \<in> set EXTENSION_MAP"
    and "endswith s e1" and "endswith s e2"
  shows "l1 = l2"
proof -
  have k1: "e1 \<in> fst ` set EXTENSION_MAP" and k2: "e2 \<in> fst ` set EXTENSION_MAP"
    using assms(1,2) by force+
  have "suffix e1 e2 \<or> suffix e2 e1"
    using assms(3,4) unfolding endswith_def by (rule suffix_same_cases)
  then have "e1 = e2"
    using extension_suffix_eq [OF _ k1 k2] extension_suffix_eq [OF _ k2 k1] by blast
  with assms(1,2) show ?thesis
    using extension_keys_distinct by (meson eq_key_imp_eq_value)
qed

lemma extension_language_known: "(ext, lang) \<in> set EXTENSION_MAP \<Longrightarrow> lang \<noteq> UNKNOWN \<and> ext \<noteq> []"
  by (auto simp: EXTENSION_MAP_def)

text \<open>
  C4. For every code text and every file path whose lower-cased form ends with an
  extension of \<open>EXTENSION_MAP\<close>, \<open>detect_language\<close> returns the language mapped to that
  extension, whatever the code and whatever the signature patterns match.
\<close>

theorem detect_language_extension_precedence:
  assumes "(ext, lang) \<in> set EXTENSION_MAP" and "endswith (lower path) ext"
  shows "detect_language re_search code (Some path) = lang"
proof -
  have "\<forall>(e, l) \<in> set EXTENSION_MAP. endswith (lower path) e \<longrightarrow> l = lang"
    using extension_languages_agree [OF _ assms(1) _ assms(2)] by blast
  then have ext: "detect_by_extension path = lang"
    unfolding detect_by_extension_def
    using detect_by_extension_items_first [OF assms] by blast
  have "lower path \<noteq> []"
    using assms extension_language_known [OF assms(1)] by (auto simp: endswith_def)
  then have "path \<noteq> []" by (auto simp: lower_def)
  with ext extension_language_known [OF assms(1)] show ?thesis
    by (simp add: detect_language_def)
qed

theorem detect_language_extension_precedence_witness:
  "(''.java'', JAVA) \<in> set EXTENSION_MAP \<and> endswith (lower ''Main.JAVA'') ''.java'' \<and>
   detect_by_patterns (\<lambda>pattern code. True) ''using System;'' = CSHARP \<and>
   detect_language (\<lambda>pattern code. True) ''using System;'' (Some ''Main.JAVA'') = JAVA"
proof -
  have h1: "(''.java'', JAVA) \<in> set EXTENSION_MAP" by (simp add: EXTENSION_MAP_def)
  have h2: "endswith (lower ''Main.JAVA'') ''.java''" by code_simp
  have h3: "detect_by_patterns (\<lambda>pattern code. True) ''using System;'' = CSHARP" by code_simp
  show ?thesis
    using h1 h2 h3 detect_language_extension_precedence [OF h1 h2] by simp
qed

lemma scores_incr_add:
  "scores_incr lang (map (\<lambda>(k, v). if k = lang then (k, v + n) else (k, v)) scores) =
   map (\<lambda>(k, v). if k = lang then (k, v + Suc n) else (k, v)) scores"
  by (induction scores) (auto simp: scores_incr_def)

lemma count_hits_add:
  "count_hits re_search code lang patterns
     (map (\<lambda>(k, v). if k = lang then (k, v + n) else (k, v)) scores) =
   map (\<lambda>(k, v). if k = lang
                  then (k, v + n + length (filter (\<lambda>p. re_search p code) patterns))
                  else (k, v)) scores"
proof (induction patterns arbitrary: n)
  case Nil
  then show ?case by auto
next
  case (Cons p ps)
  show ?case
  proof (cases "re_search p code")
    case True
    then show ?thesis
      using Cons.IH [of "Suc n"] by (auto simp: scores_incr_add)
  next
    case False
    then show ?thesis using Cons.IH [of n] by auto
  qed
qed

lemma count_hits_eq:
  "count_hits re_search code lang patterns scores =
   map (\<lambda>(k, v). if k = lang
                  then (k, v + length (filter (\<lambda>p. re_search p code) patterns))
                  else (k, v)) scores"
proof -
  have "map (\<lambda>(k, v). if k = lang then (k, v + 0) else (k, v)) scores = scores"
    by (induction scores) auto
  then show ?thesis
    using count_hits_add [of re_search code lang patterns 0 scores] by auto
qed

lemma final_scores:
  "score_languages re_search code LANGUAGE_PATTERNS initial_scores =
     map (\<lambda>lang. (lang, signature_hits re_search code lang)) scored_languages"
proof -
  obtain p1 p2 p3 p4 where tab:
    "LANGUAGE_PATTERNS =
       [(CSHARP, p1), (REACT_TYPESCRIPT, p2), (REACT_JAVASCRIPT, p3), (JAVA, p4)]"
    by (simp add: LANGUAGE_PATTERNS_def)
  show ?thesis
    by (simp add: tab initial_scores_def scored_languages_def LanguageType_members_def
        count_hits_eq signature_hits_def patterns_of_def)
qed

lemma max_by_score_four:
  fixes a b c d :: nat
  shows "max_by_score (k1, a) [(k2, b), (k3, c), (k4, d)] =
     (if a < b then (if b < c then (if c < d then (k4, d) else (k3, c))
                     else (if b < d then (k4, d) else (k2, b)))
      else (if a < c then (if c < d then (k4, d) else (k3, c))
            else (if a < d then (k4, d) else (k1, a))))"
  by simp

text \<open>
  C5. With no file path, or a path that ends with no registered extension, detection
  scores every language but \<open>UNKNOWN\<close> by the number of its signature patterns that
  match the code. If every score is zero the result is \<open>UNKNOWN\<close>; otherwise it is a
  language of highest score, and among the languages of that score the one declared
  first in the enumeration.
\<close>

theorem detect_by_patterns_highest_score:
  assumes "case path of None \<Rightarrow> True
           | Some p \<Rightarrow> \<forall>(ext, lang) \<in> set EXTENSION_MAP. \<not> endswith (lower p) ext"
  shows "let result = detect_language re_search code path;
             hits = signature_hits re_search code
         in if \<forall>lang \<in> set scored_languages. hits lang = 0 then result = UNKNOWN
            else result \<in> set scored_languages \<and> 0 < hits result \<and>
                 (\<forall>lang \<in> set scored_languages.
                    hits lang \<le> hits result \<and>
                    (hits lang = hits result \<longrightarrow>
                       declaration_index result \<le> declaration_index lang))"
proof -
  have fall: "detect_language re_search code path = detect_by_patterns re_search code"
  proof (cases path)
    case None
    then show ?thesis by (simp add: detect_language_def)
  next
    case (Some p)
    with assms have "detect_by_extension p = UNKNOWN"
      unfolding detect_by_extension_def by (simp add: detect_by_extension_items_none)
    with Some show ?thesis by (simp add: detect_language_def)
  qed
  show ?thesis
    unfolding fall detect_by_patterns_def final_scores
    by (simp add: scored_languages_def LanguageType_members_def Let_def)
qed

theorem detect_by_patterns_highest_score_witness:
  "detect_language
     (matching_only [BSL # ''bimport'' @ BSL # ''s+.*'' @ BSL # ''s+from'' @ BSL # ''s+['' @ SQ # BSL # DQ
        # '']react['' @ SQ # BSL # DQ # '']''])
     (''import React from '' @ SQ # ''react'' @ [SQ]) None = REACT_TYPESCRIPT \<and>
   map (signature_hits
     (matching_only [BSL # ''bimport'' @ BSL # ''s+.*'' @ BSL # ''s+from'' @ BSL # ''s+['' @ SQ # BSL # DQ
        # '']react['' @ SQ # BSL # DQ # '']''])
     (''import React from '' @ SQ # ''react'' @ [SQ])) scored_languages = [0, 1, 1, 0]"
  (is "detect_language ?re ?code None = _ \<and> _")
proof -
  have hits: "map (signature_hits ?re ?code) scored_languages = [0, 1, 1, 0]"
    by code_simp
  have hyp: "case (None :: string option) of None \<Rightarrow> True
             | Some p \<Rightarrow> \<forall>(ext, lang) \<in> set EXTENSION_MAP. \<not> endswith (lower p) ext"
    by simp
  have "detect_language ?re ?code None = REACT_TYPESCRIPT"
    using detect_by_patterns_highest_score [OF hyp, of ?re ?code] hits
    by (auto simp: Let_def scored_languages_def LanguageType_members_def split: if_splits)
  with hits show ?thesis by simp
qed

subsection \<open>Response parsing\<close>

lemma takeWhile_until:
  "c \<notin> set pre \<Longrightarrow> takeWhile (\<lambda>x. x \<noteq> c) (pre @ c # rest) = pre"
  by (induction pre) auto

lemma str_find_first:
  "c \<notin> set pre \<Longrightarrow> str_find c (pre @ c # rest) = int (length pre)"
  by (simp add: str_find_def takeWhile_until)

lemma str_rfind_last:
  assumes "c \<notin> set post"
  shows "str_rfind c (front @ c # post) = int (length front)"
proof -
  have "takeWhile (\<lambda>x. x \<noteq> c) (rev post @ c # rev front) = rev post"
    using assms takeWhile_until [of c "rev post" "rev front"] by simp
  then show ?thesis by (simp add: str_rfind_def)
qed

lemma bracket_found:
  assumes "response = pre @ CHR ''['' # mid @ CHR '']'' # post"
    and "CHR ''['' \<notin> set pre" and "CHR '']'' \<notin> set post"
  shows "str_find (CHR ''['') response = int (length pre)"
    and "str_rfind (CHR '']'') response + 1 = int (length pre + length mid + 2)"
    and "slice response (int (length pre)) (int (length pre + length mid + 2)) =
           CHR ''['' # mid @ [CHR '']'']"
proof -
  show "str_find (CHR ''['') response = int (length pre)"
    using assms(1,2) by (simp add: str_find_first)
  have "response = (pre @ CHR ''['' # mid) @ CHR '']'' # post"
    using assms(1) by simp
  then have "str_rfind (CHR '']'') response = int (length (pre @ CHR ''['' # mid))"
    using assms(3) str_rfind_last by blast
  then show "str_rfind (CHR '']'') response + 1 = int (length pre + length mid + 2)"
    by simp
  have "take (length pre + length mid + 2) response = pre @ CHR ''['' # mid @ [CHR '']'']"
    using assms(1) by simp
  then show "slice response (int (length pre)) (int (length pre + length mid + 2)) =
           CHR ''['' # mid @ [CHR '']'']"
    unfolding slice_def nat_int by simp
qed




lemma parse_llm_response_bracketed:
  assumes "response = pre @ CHR ''['' # mid @ CHR '']'' # post"
    and "CHR ''['' \<notin> set pre" and "CHR '']'' \<notin> set post"
  shows "parse_llm_response loads response =
           ([CHR ''['' # mid @ [CHR '']'']], decoded_or_empty loads (CHR ''['' # mid @ [CHR '']'']))"
proof -
  note b = bracket_found [OF assms]
  have "parse_llm_response_try loads response =
          ([CHR ''['' # mid @ [CHR '']'']], loads_list loads (CHR ''['' # mid @ [CHR '']'']))"
    unfolding parse_llm_response_try_def Let_def b(1) b(2) b(3) by simp
  then show ?thesis
    by (simp add: parse_llm_response_def decoded_or_empty_def loads_list_def
        split: sum.splits pyval.splits)
qed




lemma parse_llm_response_oops_calls:
  "fst (parse_llm_response loads ''x [oops] y'') = [''[oops]'']"
proof -
  have "''x [oops] y'' = ''x '' @ CHR ''['' # ''oops'' @ CHR '']'' # '' y''" by simp
  from parse_llm_response_bracketed [OF this, of loads] show ?thesis by simp
qed










subsection \<open>Record conversion\<close>

lemma coerce_severity_recognised:
  "coerce_severity (SeverityLevel_value lvl) = Inr lvl"
  by (cases lvl) (simp_all add: coerce_severity_def SeverityLevel_call_def)

lemma coerce_severity_unrecognised:
  "\<forall>lvl. severity_str \<noteq> SeverityLevel_value lvl \<Longrightarrow> coerce_severity severity_str = Inr MEDIUM"
proof -
  assume a: "\<forall>lvl. severity_str \<noteq> SeverityLevel_value lvl"
  have "severity_str \<noteq> ''LOW''" "severity_str \<noteq> ''MEDIUM''" "severity_str \<noteq> ''HIGH''"
    "severity_str \<noteq> ''CRITICAL''"
    using a [rule_format, of LOW] a [rule_format, of MEDIUM] a [rule_format, of HIGH]
      a [rule_format, of CRITICAL] by simp_all
  then show ?thesis by (simp add: coerce_severity_def SeverityLevel_call_def)
qed

lemma SecurityIssue_init_fields:
  "SecurityIssue_init rt kw = Inr issue \<Longrightarrow>
     severity issue = kw_severity kw \<and>
     validate_optional_str (kw_file_path kw) = Some (file_path issue)"
  by (auto simp: SecurityIssue_init_def split: option.splits)

text \<open>
  C10. A record whose \<open>severity\<close> field is present and is not a string raises an
  \<open>AttributeError\<close> at \<open>.upper()\<close>; the loop skips it, so it contributes no issue to the
  output, not even one of severity \<open>MEDIUM\<close>.
\<close>

theorem non_string_severity_dropped:
  assumes "map_of d ''severity'' = Some v" and "\<forall>s. v \<noteq> PStr s"
  shows "create_security_issue rt path idx (PDict d) = Inl (no_attribute v ''upper'') \<and>
         create_security_issues_from rt path idx (PDict d # rest) =
           create_security_issues_from rt path (Suc idx) rest"
proof -
  have "dict_get d ''severity'' (PStr ''MEDIUM'') = v"
    using assms(1) by (simp add: dict_get_def)
  then have "create_security_issue rt path idx (PDict d) = Inl (no_attribute v ''upper'')"
    using assms(2) by (cases v) (simp_all add: create_security_issue_def)
  then show ?thesis by simp
qed

theorem non_string_severity_dropped_witness:
  "create_security_issues sample_runtime
     [PDict [(''severity'', PInt 3)], PDict [(''severity'', PNone), (''title'', PStr ''x'')]] None = []"
proof -
  have a: "map_of [(''severity'', PInt 3)] ''severity'' = Some (PInt 3) \<and> (\<forall>s. PInt 3 \<noteq> PStr s)"
    by simp
  have b: "map_of [(''severity'', PNone), (''title'', PStr ''x'')] ''severity'' = Some PNone \<and>
           (\<forall>s. PNone \<noteq> PStr s)"
    by simp
  show ?thesis
    unfolding create_security_issues_def
    using non_string_severity_dropped [of "[(''severity'', PInt 3)]" "PInt 3" sample_runtime None 0]
      non_string_severity_dropped
        [of "[(''severity'', PNone), (''title'', PStr ''x'')]" PNone sample_runtime None 1 "[]"]
      a b
    by simp
qed

lemma SecurityIssue_init_severity:
  "SecurityIssue_init rt (issue_kwargs_of rt path idx d lvl) = Inr issue \<Longrightarrow>
   SecurityIssue_init rt (issue_kwargs_of rt path idx d lvl') = Inr (issue\<lparr>severity := lvl'\<rparr>)"
  by (auto simp: SecurityIssue_init_def issue_kwargs_of_def split: option.splits)

lemma create_security_issue_raises_Exception:
  "create_security_issue rt path idx data = Inl e \<Longrightarrow> is_Exception e"
  by (auto simp: create_security_issue_def no_attribute_def coerce_severity_def
      SeverityLevel_call_def SecurityIssue_init_def Let_def
      split: pyval.splits sum.splits if_splits option.splits)

lemma recognised_severity_kept:
  assumes "map_of d ''severity'' = Some (PStr s)" and "str_upper rt s = SeverityLevel_value lvl"
  shows "create_security_issue rt path idx (PDict d) =
           SecurityIssue_init rt (issue_kwargs_of rt path idx d lvl)"
proof -
  have "dict_get d ''severity'' (PStr ''MEDIUM'') = PStr s"
    using assms(1) by (simp add: dict_get_def)
  then show ?thesis
    using assms(2) coerce_severity_recognised [of lvl]
    by (simp add: create_security_issue_def)
qed

text \<open>
  C7. For a record whose \<open>severity\<close> field is a string that, in upper case, is the value
  of no severity level, the coercion gives \<open>MEDIUM\<close> and raises nothing: the record reaches
  the constructor with severity \<open>MEDIUM\<close>. Whenever the constructor accepts the record's
  other fields, as it would with any severity, the record is converted to an issue of
  severity \<open>MEDIUM\<close> and that issue is in the output: the record is not dropped for its
  severity.
\<close>

theorem unrecognised_severity_medium:
  assumes "map_of d ''severity'' = Some (PStr s)"
    and "\<forall>lvl. str_upper rt s \<noteq> SeverityLevel_value lvl"
  shows "coerce_severity (str_upper rt s) = Inr MEDIUM \<and>
         create_security_issue rt path idx (PDict d) =
           SecurityIssue_init rt (issue_kwargs_of rt path idx d MEDIUM) \<and>
         (\<forall>lvl issue.
            SecurityIssue_init rt (issue_kwargs_of rt path idx d lvl) = Inr issue \<longrightarrow>
            create_security_issue rt path idx (PDict d) = Inr (issue\<lparr>severity := MEDIUM\<rparr>) \<and>
            create_security_issues_from rt path idx (PDict d # rest) =
              issue\<lparr>severity := MEDIUM\<rparr> # create_security_issues_from rt path (Suc idx) rest)"
proof -
  have co: "coerce_severity (str_upper rt s) = Inr MEDIUM"
    using coerce_severity_unrecognised [OF assms(2)] .
  have "dict_get d ''severity'' (PStr ''MEDIUM'') = PStr s"
    using assms(1) by (simp add: dict_get_def)
  then have c: "create_security_issue rt path idx (PDict d) =
                  SecurityIssue_init rt (issue_kwargs_of rt path idx d MEDIUM)"
    using co by (simp add: create_security_issue_def)
  have "create_security_issue rt path idx (PDict d) = Inr (issue\<lparr>severity := MEDIUM\<rparr>) \<and>
        create_security_issues_from rt path idx (PDict d # rest) =
          issue\<lparr>severity := MEDIUM\<rparr> # create_security_issues_from rt path (Suc idx) rest"
    if "SecurityIssue_init rt (issue_kwargs_of rt path idx d lvl) = Inr issue" for lvl issue
    using c SecurityIssue_init_severity [OF that, of MEDIUM] by simp
  with co c show ?thesis by blast
qed

theorem unrecognised_severity_medium_witness:
  "map severity (create_security_issues sample_runtime
     [PDict [(''severity'', PStr ''bogus''), (''title'', PStr ''Weak hash'')]] None) = [MEDIUM]"
proof -
  let ?d = "[(''severity'', PStr ''bogus''), (''title'', PStr ''Weak hash'')]"
  have a: "map_of ?d ''severity'' = Some (PStr ''bogus'')" by simp
  have u: "str_upper sample_runtime ''bogus'' = ''BOGUS''" by code_simp
  have b: "\<forall>lvl. str_upper sample_runtime ''bogus'' \<noteq> SeverityLevel_value lvl"
  proof
    fix lvl show "str_upper sample_runtime ''bogus'' \<noteq> SeverityLevel_value lvl"
      unfolding u by (cases lvl) simp_all
  qed
  obtain issue where c: "SecurityIssue_init sample_runtime
      (issue_kwargs_of sample_runtime None 0 ?d MEDIUM) = Inr issue"
    by (simp add: SecurityIssue_init_def issue_kwargs_of_def dict_get_def path_or_record_def)
  have "create_security_issues_from sample_runtime None 0 (PDict ?d # []) =
          issue\<lparr>severity := MEDIUM\<rparr> # create_security_issues_from sample_runtime None (Suc 0) []"
    using unrecognised_severity_medium [OF a b, of None 0 "[]"] c by blast
  then show ?thesis by (simp add: create_security_issues_def)
qed

text \<open>
  A record with a field that fails validation, here a \<open>title\<close> that is a list, is dropped
  whatever its severity string, recognised or not.
\<close>

lemma bad_field_dropped_whatever_severity:
  "create_security_issues sample_runtime
     [PDict [(''severity'', PStr ''bogus''), (''title'', PList [])],
      PDict [(''severity'', PStr ''high''), (''title'', PList [])]] None = []"
  by code_simp

text \<open>
  C3, as the code has it. A record that converts gets the caller's path whenever the
  caller supplies one that is not empty, whether or not the record carries a path of its
  own; the record's own path is kept only when the caller supplies \<open>None\<close> or the empty
  string.
\<close>

theorem caller_path_first:
  assumes "create_security_issue rt path idx data = Inr issue"
  shows "file_path issue =
           (if path \<noteq> None \<and> path \<noteq> Some [] then path
            else (case data of
                    PDict d \<Rightarrow> (case dict_get d ''file_path'' PNone of
                                  PStr s \<Rightarrow> Some s
                                | _ \<Rightarrow> None)
                  | _ \<Rightarrow> None))"
proof -
  obtain d where d: "data = PDict d"
    using assms by (cases data) (simp_all add: create_security_issue_def)
  obtain sev where init: "SecurityIssue_init rt (issue_kwargs_of rt path idx d sev) = Inr issue"
    using assms unfolding d create_security_issue_def
    by (auto simp: Let_def split: pyval.splits sum.splits)
  have v: "validate_optional_str (path_or_record path d) = Some (file_path issue)"
    using SecurityIssue_init_fields [OF init] by (simp add: issue_kwargs_of_def)
  show ?thesis
  proof (cases "path \<noteq> None \<and> path \<noteq> Some []")
    case True
    then obtain p where p: "path = Some p" "p \<noteq> []" by auto
    then have "path_or_record path d = PStr p" by (simp add: path_or_record_def)
    with v have "file_path issue = Some p" by simp
    with p show ?thesis by simp
  next
    case False
    then have "path_or_record path d = dict_get d ''file_path'' PNone"
      by (auto simp: path_or_record_def split: option.splits)
    with v False d show ?thesis
      by (cases "dict_get d ''file_path'' PNone") auto
  qed
qed

theorem caller_path_first_witness:
  "map file_path (create_security_issues sample_runtime
     [PDict [(''file_path'', PStr ''a.cs'')]] None) = [Some ''a.cs'']"
proof -
  let ?data = "PDict [(''file_path'', PStr ''a.cs'')]"
  have u: "str_upper sample_runtime ''MEDIUM'' = ''MEDIUM''" by code_simp
  obtain issue where c: "create_security_issue sample_runtime None 0 ?data = Inr issue"
    by (simp add: create_security_issue_def SecurityIssue_init_def issue_kwargs_of_def
        dict_get_def path_or_record_def coerce_severity_def SeverityLevel_call_def Let_def u)
  have "file_path issue = Some ''a.cs''"
    using caller_path_first [OF c] by (simp add: dict_get_def)
  with c show ?thesis by (simp add: create_security_issues_def)
qed

text \<open>
  C3, as the claim words it, fails: a record that carries the path \<open>a.cs\<close>, converted with
  the caller's path \<open>b.cs\<close>, yields an issue whose path is \<open>b.cs\<close>.
\<close>

theorem caller_path_overrides_record_path:
  "map file_path (create_security_issues sample_runtime
     [PDict [(''file_path'', PStr ''a.cs'')]] (Some ''b.cs'')) = [Some ''b.cs'']"
  by code_simp

subsection \<open>Summary\<close>

lemma count_severity_total:
  "length found =
     count_severity CRITICAL found + count_severity HIGH found
     + count_severity MEDIUM found + count_severity LOW found"
proof (induction found)
  case Nil
  then show ?case by (simp add: count_severity_def)
next
  case (Cons i found)
  then show ?case by (cases "severity i") (simp_all add: count_severity_def)
qed

lemma summary_parts:
  assumes "found \<noteq> []"
  shows "generate_summary an found =
           ''Found '' @ str_nat (length found) @ '' security issue(s): ''
           @ join '', '' (nonzero_counts found) @ '' severity.'' @ completion_message an"
proof -
  have some: "nonzero_counts found \<noteq> []"
  proof -
    have "0 < length found" using assms by simp
    then have "count_severity CRITICAL found \<noteq> 0 \<or> count_severity HIGH found \<noteq> 0
               \<or> count_severity MEDIUM found \<noteq> 0 \<or> count_severity LOW found \<noteq> 0"
      using count_severity_total [of found] by linarith
    then show ?thesis by (auto simp: nonzero_counts_def)
  qed
  have parts: "(let parts = [];
        parts = (if count_severity CRITICAL found \<noteq> 0
                 then parts @ [str_nat (count_severity CRITICAL found) @ '' critical''] else parts);
        parts = (if count_severity HIGH found \<noteq> 0
                 then parts @ [str_nat (count_severity HIGH found) @ '' high''] else parts);
        parts = (if count_severity MEDIUM found \<noteq> 0
                 then parts @ [str_nat (count_severity MEDIUM found) @ '' medium''] else parts);
        parts = (if count_severity LOW found \<noteq> 0
                 then parts @ [str_nat (count_severity LOW found) @ '' low''] else parts)
      in parts) = nonzero_counts found"
    by (simp add: nonzero_counts_def Let_def)
  show ?thesis
    using assms some parts
    by (simp add: generate_summary_def Let_def)
qed

text \<open>
  C9. For a list of issues that is not empty, the summary begins with the total count
  and then, for each severity whose count is not zero, the count and the severity's name,
  highest severity first and separated by commas; for one critical, two high and one low
  issue it begins "Found 4 security issue(s): 1 critical, 2 high, 1 low severity.". For
  the empty list it begins with "No security issues detected.".
\<close>

theorem generate_summary_prefix:
  "(found \<noteq> [] \<longrightarrow>
      prefix (''Found '' @ str_nat (length found) @ '' security issue(s): ''
              @ join '', '' (nonzero_counts found) @ '' severity.'')
        (generate_summary an found)) \<and>
   (count_severity CRITICAL found = 1 \<and> count_severity HIGH found = 2 \<and>
    count_severity MEDIUM found = 0 \<and> count_severity LOW found = 1 \<longrightarrow>
      prefix ''Found 4 security issue(s): 1 critical, 2 high, 1 low severity.''
        (generate_summary an found)) \<and>
   prefix ''No security issues detected.'' (generate_summary an [])"
proof (intro conjI impI)
  assume "found \<noteq> []"
  then show "prefix (''Found '' @ str_nat (length found) @ '' security issue(s): ''
              @ join '', '' (nonzero_counts found) @ '' severity.'')
        (generate_summary an found)"
    using summary_parts [of found an] by (simp add: prefix_def)
next
  assume c: "count_severity CRITICAL found = 1 \<and> count_severity HIGH found = 2 \<and>
    count_severity MEDIUM found = 0 \<and> count_severity LOW found = 1"
  then have len: "length found = 4" using count_severity_total [of found] by simp
  then have ne: "found \<noteq> []" by auto
  have s4: "str_nat 4 = ''4''" and s1: "str_nat (Suc 0) = ''1''" and s2: "str_nat 2 = ''2''"
    by code_simp+
  have "nonzero_counts found = [''1 critical'', ''2 high'', ''1 low'']"
    using c by (simp add: nonzero_counts_def s1 s2)
  then show "prefix ''Found 4 security issue(s): 1 critical, 2 high, 1 low severity.''
        (generate_summary an found)"
    using summary_parts [OF ne, of an] len by (simp add: prefix_def s4)
next
  show "prefix ''No security issues detected.'' (generate_summary an [])"
    by (simp add: generate_summary_def prefix_def)
qed

theorem generate_summary_prefix_witness:
  "prefix ''Found 4 security issue(s): 1 critical, 2 high, 1 low severity.''
     (generate_summary (CSharpSecurityAnalyzer ''rules'')
        [sample_issue HIGH, sample_issue CRITICAL, sample_issue LOW, sample_issue HIGH]) \<and>
   prefix ''Found 12 security issue(s): 12 medium severity.''
     (generate_summary (CSharpSecurityAnalyzer ''rules'') (replicate 12 (sample_issue MEDIUM)))"
proof -
  let ?found = "[sample_issue HIGH, sample_issue CRITICAL, sample_issue LOW, sample_issue HIGH]"
  let ?many = "replicate 12 (sample_issue MEDIUM)"
  have c: "count_severity CRITICAL ?found = 1 \<and> count_severity HIGH ?found = 2 \<and>
    count_severity MEDIUM ?found = 0 \<and> count_severity LOW ?found = 1"
    by (simp add: count_severity_def sample_issue_def)
  have ne: "?many \<noteq> []" by simp
  have shown: "''Found '' @ str_nat (length ?many) @ '' security issue(s): ''
      @ join '', '' (nonzero_counts ?many) @ '' severity.'' =
      ''Found 12 security issue(s): 12 medium severity.''"
    by code_simp
  have a: "prefix ''Found 4 security issue(s): 1 critical, 2 high, 1 low severity.''
     (generate_summary (CSharpSecurityAnalyzer ''rules'') ?found)"
    using generate_summary_prefix [of ?found "CSharpSecurityAnalyzer ''rules''"] c by blast
  have "prefix (''Found '' @ str_nat (length ?many) @ '' security issue(s): ''
      @ join '', '' (nonzero_counts ?many) @ '' severity.'')
     (generate_summary (CSharpSecurityAnalyzer ''rules'') ?many)"
    using generate_summary_prefix [of ?many "CSharpSecurityAnalyzer ''rules''"] ne by blast
  then have "prefix ''Found 12 security issue(s): 12 medium severity.''
     (generate_summary (CSharpSecurityAnalyzer ''rules'') ?many)"
    unfolding shown .
  with a show ?thesis by blast
qed

subsection \<open>The analyze boundary\<close>

lemma analyze_try_raised:
  "analyze_try rt an llm code path = Inl e \<longleftrightarrow> raised_by_stage an llm code = Some e"
  by (auto simp: analyze_try_def raised_by_stage_def Let_def split: sum.splits)

lemma analyze_try_returns:
  "raised_by_stage an llm code = None \<Longrightarrow> \<exists>result. analyze_try rt an llm code path = Inr result"
  using analyze_try_raised [of rt an llm code path]
  by (cases "analyze_try rt an llm code path") auto

text \<open>
  C1, as the code has it. Whatever the preprocess, prompt, gateway and parsing stages do:
  when all four return, \<open>analyze\<close> returns a result; when one of them raises an exception
  \<open>e\<close> of a class below \<open>Exception\<close>, \<open>analyze\<close> returns a result that has no issues, whose
  summary is "Analysis failed: " followed by the text of \<open>e\<close>, and whose metadata holds
  that text under \<open>error\<close>; when one of them raises an exception outside \<open>Exception\<close> (a
  cancellation at the \<open>await\<close>, \<open>KeyboardInterrupt\<close>, \<open>SystemExit\<close>), \<open>analyze\<close> does not
  catch it and raises it to its caller.
\<close>

theorem analyze_catches_Exception:
  "case raised_by_stage an llm code of
     None \<Rightarrow> (\<exists>result. analyze rt an llm code path = Inr result)
   | Some e \<Rightarrow>
       if is_Exception e
       then (\<exists>result. analyze rt an llm code path = Inr result \<and> issues result = [] \<and>
               summary result = ''Analysis failed: '' @ str_exn e \<and>
               map_of (analysis_metadata result) ''error'' = Some (PStr (str_exn e)))
       else analyze rt an llm code path = Inl e"
proof (cases "raised_by_stage an llm code")
  case None
  then obtain r where "analyze_try rt an llm code path = Inr r"
    using analyze_try_returns by blast
  then have "analyze rt an llm code path = Inr r" by (simp add: analyze_def)
  with None show ?thesis by simp
next
  case (Some e)
  then have t: "analyze_try rt an llm code path = Inl e" by (simp add: analyze_try_raised)
  show ?thesis
  proof (cases "is_Exception e")
    case True
    then have "analyze rt an llm code path = Inr (failure_result an e)"
      using t by (simp add: analyze_def)
    with Some True show ?thesis by (simp add: failure_result_def)
  next
    case False
    then have "analyze rt an llm code path = Inl e" using t by (simp add: analyze_def)
    with Some False show ?thesis by simp
  qed
qed

theorem analyze_catches_Exception_witness:
  "map_sum str_exn summary
     (analyze sample_runtime (CSharpSecurityAnalyzer ''rules'')
        (LLMService sample_loads (\<lambda>full_prompt. Inl (OtherException ''connection refused'')))
        ''var q = 1; // c'' (Some ''U.cs''))
     = Inr ''Analysis failed: LLM analysis failed: connection refused'' \<and>
   map_sum str_exn issues
     (analyze sample_runtime (CSharpSecurityAnalyzer ''rules'')
        (LLMService sample_loads (\<lambda>full_prompt. Inl (OtherException ''connection refused'')))
        ''var q = 1; // c'' (Some ''U.cs''))
     = Inr []"
  (is "map_sum str_exn summary (analyze ?rt ?an ?llm ?code ?path) = _ \<and> _")
proof -
  let ?e = "OtherException ''LLM analysis failed: connection refused''"
  have stage: "raised_by_stage ?an ?llm ?code = Some ?e"
    by (simp add: raised_by_stage_def CSharpSecurityAnalyzer_def LLMService_def
        LLMService_analyze_code_def)
  obtain result where "analyze ?rt ?an ?llm ?code ?path = Inr result"
    and "issues result = []" and "summary result = ''Analysis failed: '' @ str_exn ?e"
    using analyze_catches_Exception
      [where an = ?an and llm = ?llm and code = ?code and rt = ?rt and path = ?path] stage
    by auto
  then show ?thesis by simp
qed

text \<open>
  C1, as the claim words it, fails: when the gateway call is cancelled, the
  \<open>CancelledError\<close> passes both \<open>except Exception\<close> clauses and \<open>analyze\<close> raises it.
\<close>

theorem analyze_propagates_cancellation:
  "analyze sample_runtime (CSharpSecurityAnalyzer ''rules'')
     (LLMService sample_loads (\<lambda>full_prompt. Inl (CancelledError [])))
     ''var q = 1; // c'' (Some ''U.cs'')
   = Inl (CancelledError [])"
  by (simp add: analyze_def analyze_try_def CSharpSecurityAnalyzer_def LLMService_def
      LLMService_analyze_code_def)

end
